theory Spec2Isabelle
  imports Main
begin

section \<open>The tubes-js client: data model\<close>

text \<open>
  Shallow embedding of \<^verbatim>\<open>src/lib/client.ts\<close> (class \<^verbatim>\<open>TubesClient\<close>).

  The client runs on one JavaScript thread. Transport notifications (open, error, close,
  message) and timers are macrotasks; an \<^verbatim>\<open>await\<close> on an already settled promise
  only yields to other microtasks. A public call made on a client that holds a transport
  and awaited before the next call is issued therefore runs to completion without any
  event in between, and is modelled as one function on the client state. A call that has
  to wait for the shared connect promise is modelled up to that suspension point
  (\<open>Pending\<close>); once the promise is fulfilled the client holds a transport, and the
  call goes on as the same function does on such a client.

  What the client does to the outside world is recorded in log fields of the state:
  the frames handed to \<^verbatim>\<open>ws.send\<close>, the transports obtained by connect attempts, the
  delays handed to \<^verbatim>\<open>timeout\<close>, the handler invocations, the connectivity events and
  the calls of \<^verbatim>\<open>ws.close\<close>.

  Assumptions about the collaborators: \<^verbatim>\<open>ws.send\<close> returns normally, a handler returns
  normally and does not call back into the client, and a transport whose connect attempt
  ended with an error notification raises no further notification.
  \<^verbatim>\<open>debug\<close> only writes to the console and is left out.
\<close>

type_synonym channel = string

text \<open>Payloads are opaque; they are kept as their JSON text. \<^verbatim>\<open>{}\<close> is the default.\<close>

type_synonym payload = string

text \<open>A handler is a function object; the code compares handlers by identity (\<^verbatim>\<open>===\<close>).\<close>

type_synonym MessageHandlerFn = nat

type_synonym WebSocket = nat

definition RealtimeMessageTypeSubscribe :: string where
  "RealtimeMessageTypeSubscribe = ''subscribe''"

definition RealtimeMessageTypeUnsubscribe :: string where
  "RealtimeMessageTypeUnsubscribe = ''unsubscribe''"

definition RealtimeMessageTypeChannelMessage :: string where
  "RealtimeMessageTypeChannelMessage = ''message''"

record envelope =
  msg_type :: string
  msg_channel :: channel
  msg_payload :: payload

record TubesClientConfig =
  socket :: "WebSocket option"
  url :: "string option"
  retryDelay :: int
  exponentialRetryBackoff :: bool
  maxRetryAge :: "int option"
  debugging :: bool

definition defaultConfig :: TubesClientConfig where
  "defaultConfig =
     \<lparr>socket = None, url = None, retryDelay = 5000, exponentialRetryBackoff = True,
      maxRetryAge = Some (12 * 60 * 60), debugging = False\<rparr>"

text \<open>
  The promise stored in \<^verbatim>\<open>connectingPromise\<close> together with the variables its executor
  closes over: the arguments of \<^verbatim>\<open>connect\<close>, \<^verbatim>\<open>newSocket\<close> (unset while the executor
  waits for the timer) and \<^verbatim>\<open>promiseDone\<close>.
\<close>

record attempt =
  delay :: int
  isReconnect :: bool
  newSocket :: "WebSocket option"
  promiseDone :: bool

record TubesClient =
  closed :: bool
  initTime :: int
  config :: TubesClientConfig
  connectingPromise :: "attempt option"
  ws :: "WebSocket option"
  handler :: "channel \<rightharpoonup> MessageHandlerFn list"
  currentRetryDelay :: int
  subscribedChannels :: "channel list"
  written :: "envelope list"
  opened :: "WebSocket list"
  timers :: "int list"
  invoked :: "(MessageHandlerFn \<times> payload) list"
  statusEvents :: "bool list"
  closeCalls :: nat

text \<open>
  The constructor. The argument is the configuration after the defaults have been
  merged in; \<open>now\<close> is the reading of the clock.
\<close>

definition new_client :: "TubesClientConfig \<Rightarrow> int \<Rightarrow> TubesClient" where
  "new_client cfg now =
     \<lparr>closed = False, initTime = now, config = cfg, connectingPromise = None, ws = None,
      handler = Map.empty, currentRetryDelay = 0, subscribedChannels = [],
      written = [], opened = [], timers = [], invoked = [], statusEvents = [],
      closeCalls = 0\<rparr>"

text \<open>
  How a call ends: it returns (an async function: its promise is fulfilled), it is
  suspended on the shared connect promise, its promise is rejected by the bare
  \<^verbatim>\<open>Promise.reject()\<close> of \<^verbatim>\<open>connect\<close>, or it throws a \<^verbatim>\<open>TypeError\<close>. Each
  carries the client state reached.
\<close>

datatype result =
    Resolved TubesClient
  | Pending TubesClient
  | Rejected TubesClient
  | TypeError TubesClient

fun state_of :: "result \<Rightarrow> TubesClient" where
  "state_of (Resolved s) = s"
| "state_of (Pending s) = s"
| "state_of (Rejected s) = s"
| "state_of (TypeError s) = s"

section \<open>The handler store\<close>

text \<open>
  \<^verbatim>\<open>handler\<close> is a plain object created by \<^verbatim>\<open>{}\<close>, so \<^verbatim>\<open>this.handler[channel]\<close>
  finds the channel's own array when there is one, and otherwise whatever
  \<^verbatim>\<open>Object.prototype\<close> has under that name. The table lists those names with the
  \<^verbatim>\<open>length\<close> of the inherited value, which the code reads
  (none for \<^verbatim>\<open>__proto__\<close>, whose value is an object without one).
\<close>

datatype slot =
    Undefined
  | Handlers "MessageHandlerFn list"
  | Inherited "nat option"

definition objectPrototype :: "(channel \<times> nat option) list" where
  "objectPrototype =
     [(''constructor'', Some 1), (''hasOwnProperty'', Some 1), (''isPrototypeOf'', Some 1),
      (''propertyIsEnumerable'', Some 1), (''toLocaleString'', Some 0),
      (''toString'', Some 0), (''valueOf'', Some 0), (''__proto__'', None),
      (''__defineGetter__'', Some 2), (''__defineSetter__'', Some 2),
      (''__lookupGetter__'', Some 1), (''__lookupSetter__'', Some 1)]"

definition lookup :: "TubesClient \<Rightarrow> channel \<Rightarrow> slot" where
  "lookup s c =
     (case handler s c of
        Some hs \<Rightarrow> Handlers hs
      | None \<Rightarrow> (case map_of objectPrototype c of
                   Some len \<Rightarrow> Inherited len
                 | None \<Rightarrow> Undefined))"

text \<open>\<^verbatim>\<open>this.handler[channel] && this.handler[channel].length > 0\<close>\<close>

definition hasHandlers :: "TubesClient \<Rightarrow> channel \<Rightarrow> bool" where
  "hasHandlers s c =
     (case lookup s c of
        Undefined \<Rightarrow> False
      | Handlers hs \<Rightarrow> hs \<noteq> []
      | Inherited len \<Rightarrow> (case len of Some n \<Rightarrow> 0 < n | None \<Rightarrow> False))"

text \<open>An inherited value has no \<^verbatim>\<open>push\<close>: the call throws.\<close>

definition registerHandler :: "TubesClient \<Rightarrow> channel \<Rightarrow> MessageHandlerFn \<Rightarrow> result" where
  "registerHandler s c h =
     (case lookup s c of
        Undefined \<Rightarrow> Resolved (s\<lparr>handler := (handler s)(c \<mapsto> [h])\<rparr>)
      | Handlers hs \<Rightarrow> Resolved (s\<lparr>handler := (handler s)(c \<mapsto> hs @ [h])\<rparr>)
      | Inherited len \<Rightarrow> TypeError s)"

text \<open>
  The filter keeps the entries that are identical to \<open>h\<close>. An inherited value has no
  \<^verbatim>\<open>filter\<close>: the call throws.
\<close>

definition unregisterHandler :: "TubesClient \<Rightarrow> channel \<Rightarrow> MessageHandlerFn \<Rightarrow> result" where
  "unregisterHandler s c h =
     (case lookup s c of
        Undefined \<Rightarrow> Resolved s
      | Handlers hs \<Rightarrow> Resolved (s\<lparr>handler := (handler s)(c \<mapsto> filter (\<lambda>fn. fn = h) hs)\<rparr>)
      | Inherited len \<Rightarrow> TypeError s)"

primrec callHandlers :: "TubesClient \<Rightarrow> MessageHandlerFn list \<Rightarrow> payload \<Rightarrow> TubesClient" where
  "callHandlers s [] p = s"
| "callHandlers s (h # hs) p = callHandlers (s\<lparr>invoked := invoked s @ [(h, p)]\<rparr>) hs p"

text \<open>An inherited value is truthy but not iterable: \<^verbatim>\<open>for ... of\<close> throws.\<close>

definition handleMessage :: "TubesClient \<Rightarrow> channel \<Rightarrow> payload \<Rightarrow> result" where
  "handleMessage s c p =
     (case lookup s c of
        Undefined \<Rightarrow> Resolved s
      | Handlers hs \<Rightarrow> Resolved (callHandlers s hs p)
      | Inherited len \<Rightarrow> TypeError s)"

section \<open>Connecting\<close>

text \<open>
  \<^verbatim>\<open>connect\<close> up to the first suspension of the executor: the promise is created and
  stored, and the timer is started. With a promise already stored, that one is returned.
\<close>

definition connect :: "TubesClient \<Rightarrow> int \<Rightarrow> bool \<Rightarrow> result" where
  "connect s d r =
     (if closed s then Rejected s
      else (case connectingPromise s of
              None \<Rightarrow>
                Pending (s\<lparr>connectingPromise :=
                             Some \<lparr>delay = d, isReconnect = r, newSocket = None,
                                   promiseDone = False\<rparr>,
                           timers := timers s @ [d]\<rparr>)
            | Some a \<Rightarrow> Pending s))"

definition lazyInit :: "TubesClient \<Rightarrow> result" where
  "lazyInit s =
     (if ws s \<noteq> None then Resolved s
      else if connectingPromise s \<noteq> None then Pending s
      else connect s 0 False)"

definition send :: "TubesClient \<Rightarrow> channel \<Rightarrow> payload \<Rightarrow> string \<Rightarrow> result" where
  "send s c p t =
     (case lazyInit s of
        Resolved s1 \<Rightarrow>
          Resolved (s1\<lparr>written := written s1 @
                         [\<lparr>msg_type = t, msg_channel = c, msg_payload = p\<rparr>]\<rparr>)
      | r \<Rightarrow> r)"

section \<open>The public operations\<close>

text \<open>A handler argument of \<^verbatim>\<open>null\<close> or \<^verbatim>\<open>undefined\<close> is \<open>None\<close>.\<close>

definition subscribe :: "TubesClient \<Rightarrow> channel \<Rightarrow> MessageHandlerFn option \<Rightarrow> result" where
  "subscribe s c h =
     (case lazyInit s of
        Resolved s1 \<Rightarrow>
          (let hasHandlersAlready = hasHandlers s1 c in
           case (case h of Some f \<Rightarrow> registerHandler s1 c f | None \<Rightarrow> Resolved s1) of
             Resolved s2 \<Rightarrow>
               (if hasHandlersAlready then Resolved s2
                else (case send s2 c ''{}'' RealtimeMessageTypeSubscribe of
                        Resolved s3 \<Rightarrow>
                          Resolved (s3\<lparr>subscribedChannels := subscribedChannels s3 @ [c]\<rparr>)
                      | r \<Rightarrow> r))
           | r \<Rightarrow> r)
      | r \<Rightarrow> r)"

definition unsubscribe :: "TubesClient \<Rightarrow> channel \<Rightarrow> MessageHandlerFn option \<Rightarrow> result" where
  "unsubscribe s c h =
     (case lazyInit s of
        Resolved s1 \<Rightarrow>
          (case (case h of Some f \<Rightarrow> unregisterHandler s1 c f | None \<Rightarrow> Resolved s1) of
             Resolved s2 \<Rightarrow>
               (if hasHandlers s2 c then Resolved s2
                else (case send s2 c ''{}'' RealtimeMessageTypeUnsubscribe of
                        Resolved s3 \<Rightarrow>
                          Resolved (s3\<lparr>subscribedChannels :=
                                          filter (\<lambda>x. x \<noteq> c) (subscribedChannels s3)\<rparr>)
                      | r \<Rightarrow> r))
           | r \<Rightarrow> r)
      | r \<Rightarrow> r)"

definition unsubscribeAll :: "TubesClient \<Rightarrow> channel \<Rightarrow> result" where
  "unsubscribeAll s c =
     (case lazyInit s of
        Resolved s1 \<Rightarrow>
          (let s2 = s1\<lparr>handler := (handler s1)(c := None)\<rparr> in
           case send s2 c ''{}'' RealtimeMessageTypeUnsubscribe of
             Resolved s3 \<Rightarrow>
               Resolved (s3\<lparr>subscribedChannels :=
                               filter (\<lambda>x. x \<noteq> c) (subscribedChannels s3)\<rparr>)
           | r \<Rightarrow> r)
      | r \<Rightarrow> r)"

section \<open>Connection life cycle\<close>

text \<open>The loop of \<^verbatim>\<open>handleReconnect\<close>; a failing \<^verbatim>\<open>send\<close> ends it.\<close>

fun resend :: "TubesClient \<Rightarrow> channel list \<Rightarrow> result" where
  "resend s [] = Resolved s"
| "resend s (c # cs) =
     (case send s c ''{}'' RealtimeMessageTypeSubscribe of
        Resolved s1 \<Rightarrow> resend s1 cs
      | r \<Rightarrow> r)"

definition handleReconnect :: "TubesClient \<Rightarrow> result" where
  "handleReconnect s = resend s (subscribedChannels s)"

definition triggerConnectionStatusEvent :: "TubesClient \<Rightarrow> bool \<Rightarrow> TubesClient" where
  "triggerConnectionStatusEvent s status = s\<lparr>statusEvents := statusEvents s @ [status]\<rparr>"

text \<open>
  \<^verbatim>\<open>runOnSuccess\<close> of the attempt in flight, once its transport exists.
  \<^verbatim>\<open>addSocketHandler\<close> only installs the callbacks \<open>handleMessage\<close> and \<open>onclose\<close>
  below. The promise that \<^verbatim>\<open>handleReconnect\<close> returns is dropped by the caller.
\<close>

definition runOnSuccess :: "TubesClient \<Rightarrow> TubesClient" where
  "runOnSuccess s =
     (case connectingPromise s of
        None \<Rightarrow> s
      | Some a \<Rightarrow>
          (case newSocket a of
             None \<Rightarrow> s
           | Some sock \<Rightarrow>
               if promiseDone a then s
               else (let s1 = s\<lparr>currentRetryDelay := 0\<rparr>;
                         s2 = s1\<lparr>ws := Some sock\<rparr>;
                         s3 = triggerConnectionStatusEvent s2 True;
                         s4 = s3\<lparr>connectingPromise := None\<rparr>
                     in if isReconnect a then state_of (handleReconnect s4) else s4)))"

text \<open>
  The executor of the connect promise after \<^verbatim>\<open>await timeout(delay)\<close>: it takes the
  configured transport or constructs one (a new identity), and succeeds at once when
  the transport is already open. \<open>isOpen\<close> is the transport's \<^verbatim>\<open>readyState\<close>.
\<close>

definition timerFired :: "TubesClient \<Rightarrow> bool \<Rightarrow> TubesClient" where
  "timerFired s isOpen =
     (case connectingPromise s of
        None \<Rightarrow> s
      | Some a \<Rightarrow>
          (case newSocket a of
             Some sock \<Rightarrow> s
           | None \<Rightarrow>
               (let sock = (case socket (config s) of
                              Some given \<Rightarrow> given
                            | None \<Rightarrow> length (opened s));
                    s1 = s\<lparr>connectingPromise := Some (a\<lparr>newSocket := Some sock\<rparr>),
                           opened := opened s @ [sock]\<rparr>
                in if isOpen then runOnSuccess s1 else s1)))"

text \<open>The transport of the attempt in flight reports that it is open.\<close>

definition onopen :: "TubesClient \<Rightarrow> TubesClient" where
  "onopen s = runOnSuccess s"

text \<open>
  \<^verbatim>\<open>this.config.maxRetryAge && timeSinceInit > this.config.maxRetryAge * 1000\<close>:
  an age of \<open>0\<close> or \<^verbatim>\<open>undefined\<close> is falsy, and the test is then not made.
  \<open>now\<close> is the clock reading, in milliseconds like \<open>initTime\<close>; the age is in seconds.
\<close>

definition retryAgeExceeded :: "TubesClient \<Rightarrow> int \<Rightarrow> bool" where
  "retryAgeExceeded s now =
     (let timeSinceInit = now - initTime s in
      case maxRetryAge (config s) of
        None \<Rightarrow> False
      | Some age \<Rightarrow> age \<noteq> 0 \<and> timeSinceInit > age * 1000)"

definition retryConnect :: "TubesClient \<Rightarrow> int \<Rightarrow> TubesClient" where
  "retryConnect s now =
     (if closed s then s
      else (if retryAgeExceeded s now
            then s
            else (let s1 = s\<lparr>currentRetryDelay :=
                               (if exponentialRetryBackoff (config s)
                                then currentRetryDelay s * 2
                                else retryDelay (config s))\<rparr>
                  in state_of (connect s1 (currentRetryDelay s1) True))))"

text \<open>The transport of the attempt in flight reports an error.\<close>

definition onerror :: "TubesClient \<Rightarrow> int \<Rightarrow> TubesClient" where
  "onerror s now =
     (case connectingPromise s of
        None \<Rightarrow> s
      | Some a \<Rightarrow>
          (case newSocket a of
             None \<Rightarrow> s
           | Some sock \<Rightarrow>
               if promiseDone a then s
               else retryConnect (s\<lparr>connectingPromise := None\<rparr>) now))"

text \<open>The transport held in \<^verbatim>\<open>ws\<close> reports that it closed.\<close>

definition onclose :: "TubesClient \<Rightarrow> int \<Rightarrow> TubesClient" where
  "onclose s now =
     (let s1 = triggerConnectionStatusEvent s False;
          s2 = s1\<lparr>ws := None\<rparr>
      in retryConnect s2 now)"

text \<open>
  \<^verbatim>\<open>close\<close>: with a connect promise stored it suspends on it after setting the flag;
  otherwise it calls \<^verbatim>\<open>ws.close()\<close> on the transport it holds and returns. \<^verbatim>\<open>ws\<close>
  itself is cleared only by \<open>onclose\<close>.
\<close>

definition close :: "TubesClient \<Rightarrow> result" where
  "close s =
     (let s1 = s\<lparr>closed := True\<rparr> in
      if connectingPromise s1 \<noteq> None then Pending s1
      else if ws s1 \<noteq> None then Resolved (s1\<lparr>closeCalls := closeCalls s1 + 1\<rparr>)
      else Resolved s1)"

section \<open>Frames, scenarios and example clients\<close>

definition subscribeEnvelope :: "channel \<Rightarrow> envelope" where
  "subscribeEnvelope c =
     \<lparr>msg_type = RealtimeMessageTypeSubscribe, msg_channel = c, msg_payload = ''{}''\<rparr>"

definition unsubscribeEnvelope :: "channel \<Rightarrow> envelope" where
  "unsubscribeEnvelope c =
     \<lparr>msg_type = RealtimeMessageTypeUnsubscribe, msg_channel = c, msg_payload = ''{}''\<rparr>"

text \<open>One failed connect attempt: the timer fires, the transport is not open, it errors.\<close>

definition failOnce :: "TubesClient \<Rightarrow> int \<Rightarrow> TubesClient" where
  "failOnce s now = onerror (timerFired s False) now"

text \<open>Several \<open>subscribe\<close> calls issued one after the other, none of them awaited.\<close>

fun subscribeAll ::
  "TubesClient \<Rightarrow> (channel \<times> MessageHandlerFn option) list \<Rightarrow> TubesClient" where
  "subscribeAll s [] = s"
| "subscribeAll s ((c, h) # calls) = subscribeAll (state_of (subscribe s c h)) calls"

text \<open>The frames written between two states.\<close>

definition framesSince :: "TubesClient \<Rightarrow> TubesClient \<Rightarrow> envelope list" where
  "framesSince s s' = drop (length (written s)) (written s')"

definition example_config :: TubesClientConfig where
  "example_config = defaultConfig\<lparr>url := Some ''ws://localhost:8080''\<rparr>"

text \<open>A client whose first operation connected it: the transport was open at once.\<close>

definition example_client :: TubesClient where
  "example_client = timerFired (state_of (lazyInit (new_client example_config 0))) True"

text \<open>The same client after \<open>close\<close> has returned, and after the close notification.\<close>

definition closed_client :: TubesClient where
  "closed_client = state_of (close example_client)"

definition gone_client :: TubesClient where
  "gone_client = onclose closed_client 5"

text \<open>A client that subscribed twice to channel \<open>a\<close> without a handler.\<close>

definition dup_client :: TubesClient where
  "dup_client =
     state_of (subscribe (state_of (subscribe example_client ''a'' None)) ''a'' None)"

text \<open>A client configured with a retry age of zero.\<close>

definition zero_age_client :: TubesClient where
  "zero_age_client = new_client (example_config\<lparr>maxRetryAge := Some 0\<rparr>) 0"

text \<open>A new client after its first operation: the connect promise waits for its timer.\<close>

definition waiting_client :: TubesClient where
  "waiting_client = state_of (lazyInit (new_client example_config 0))"

text \<open>The same attempt once its transport has been constructed and is not yet open.\<close>

definition opening_client :: TubesClient where
  "opening_client = timerFired waiting_client False"

text \<open>A connected client subscribed to the channels \<open>a\<close> and \<open>b\<close>, in this order.\<close>

definition ab_client :: TubesClient where
  "ab_client =
     state_of (subscribe (state_of (subscribe example_client ''a'' (Some 1))) ''b'' (Some 2))"

section \<open>Basic facts\<close>

lemmas example_defs = example_client_def example_config_def defaultConfig_def new_client_def
  lazyInit_def connect_def timerFired_def runOnSuccess_def triggerConnectionStatusEvent_def

lemma example_client_eq:
  "example_client =
     \<lparr>closed = False, initTime = 0,
      config = \<lparr>socket = None, url = Some ''ws://localhost:8080'', retryDelay = 5000,
                exponentialRetryBackoff = True, maxRetryAge = Some 43200,
                debugging = False\<rparr>,
      connectingPromise = None, ws = Some 0, handler = Map.empty,
      currentRetryDelay = 0, subscribedChannels = [], written = [],
      opened = [0], timers = [0], invoked = [], statusEvents = [True], closeCalls = 0\<rparr>"
  by (simp add: example_defs)

lemma lookup_example: "lookup example_client ''a'' = Undefined"
  by (simp add: example_client_eq lookup_def objectPrototype_def)

lemma lazyInit_ready: "ws s \<noteq> None \<Longrightarrow> lazyInit s = Resolved s"
  by (simp add: lazyInit_def)

lemma send_ready:
  "ws s \<noteq> None \<Longrightarrow>
   send s c p t =
     Resolved (s\<lparr>written := written s @
                    [\<lparr>msg_type = t, msg_channel = c, msg_payload = p\<rparr>]\<rparr>)"
  by (simp add: send_def lazyInit_ready)

lemma callHandlers_invoked:
  "callHandlers s hs p = s\<lparr>invoked := invoked s @ map (\<lambda>h. (h, p)) hs\<rparr>"
  by (induction hs arbitrary: s) simp_all



lemma subscribe_null:
  assumes "ws s \<noteq> None" and "\<not> hasHandlers s c"
  shows "subscribe s c None =
           Resolved (s\<lparr>written := written s @ [subscribeEnvelope c],
                       subscribedChannels := subscribedChannels s @ [c]\<rparr>)"
  using assms by (simp add: subscribe_def lazyInit_ready send_ready subscribeEnvelope_def)

section \<open>Dispatch\<close>

text \<open>
  An inbound envelope on a channel for which \<^verbatim>\<open>this.handler[channel]\<close> is
  undefined is dropped: the dispatch returns normally and the client state, with its
  registry, its subscribed-channel sequence and its record of handler invocations, is
  exactly what it was. Nothing is kept of the envelope.
\<close>

lemma handleMessage_unknown_channel:
  assumes "lookup s c = Undefined"
  shows "handleMessage s c p = Resolved s"
  using assms by (simp add: handleMessage_def)

lemma handleMessage_unknown_channel_example:
  "lookup example_client ''a'' = Undefined
   \<and> handleMessage example_client ''a'' ''{}'' = Resolved example_client"
proof -
  have h: "lookup example_client ''a'' = Undefined" by (rule lookup_example)
  show ?thesis using h handleMessage_unknown_channel [OF h, of "''{}''"] by simp
qed

text \<open>
  Claim C9, evaluated. The connected example client has nothing registered, so its
  registry has no entry for the channel \<open>constructor\<close>. The lookup
  \<^verbatim>\<open>this.handler[channel]\<close> of \<open>handleMessage\<close> nevertheless finds the member of that
  name that the store inherits from \<^verbatim>\<open>Object.prototype\<close>; it is truthy and not
  iterable, and the dispatch of an envelope on that channel throws a \<^verbatim>\<open>TypeError\<close>
  instead of dropping the envelope.
\<close>

theorem dispatch_inherited_name_throws:
  "handler example_client ''constructor'' = None
   \<and> handleMessage example_client ''constructor'' ''{}'' = TypeError example_client"
  by (simp add: example_client_eq handleMessage_def lookup_def objectPrototype_def)

section \<open>Unsubscribing a whole channel\<close>

text \<open>
  Claim C7. On a client that holds a transport, whatever was subscribed before,
  \<open>unsubscribeAll c\<close> returns after writing exactly one frame, the unsubscribe envelope
  for \<open>c\<close>; the registry then has no entry for \<open>c\<close>, and \<open>c\<close> does not occur in the
  subscribed-channel sequence. This does not depend on \<open>c\<close> having had handlers.
\<close>

theorem unsubscribeAll_clears_channel:
  assumes "ws s \<noteq> None"
  shows "\<exists>s'. unsubscribeAll s c = Resolved s'
           \<and> written s' = written s @ [unsubscribeEnvelope c]
           \<and> handler s' c = None
           \<and> c \<notin> set (subscribedChannels s')
           \<and> subscribedChannels s' = filter (\<lambda>x. x \<noteq> c) (subscribedChannels s)"
  using assms
  by (simp add: unsubscribeAll_def lazyInit_ready send_ready unsubscribeEnvelope_def)

theorem unsubscribeAll_clears_channel_witness:
  "ws example_client \<noteq> None
   \<and> (\<exists>s'. unsubscribeAll example_client ''a'' = Resolved s'
           \<and> written s' = written example_client @ [unsubscribeEnvelope ''a'']
           \<and> handler s' ''a'' = None
           \<and> ''a'' \<notin> set (subscribedChannels s')
           \<and> subscribedChannels s' =
               filter (\<lambda>x. x \<noteq> ''a'') (subscribedChannels example_client))"
proof -
  have h: "ws example_client \<noteq> None" by (simp add: example_client_eq)
  show ?thesis using h unsubscribeAll_clears_channel [OF h, of "''a''"] by simp
qed

section \<open>Subscribing\<close>




text \<open>
  \<open>subscribe\<close> with a \<^verbatim>\<open>null\<close> or \<^verbatim>\<open>undefined\<close> handler never changes the
  registry, whatever the client and the channel.
\<close>

lemma subscribe_without_handler_registry:
  "handler (state_of (subscribe s c None)) = handler s"
  by (simp add: subscribe_def lazyInit_def connect_def send_def split: option.splits)

text \<open>
  On a client that holds a transport, for a channel \<open>c\<close> for which the code's test
  for existing handlers is false: \<open>subscribe c\<close> with a \<^verbatim>\<open>null\<close> or
  \<^verbatim>\<open>undefined\<close> handler leaves the registry as it was, writes a subscribe envelope for
  \<open>c\<close> and appends \<open>c\<close> to the subscribed-channel sequence; the same call made again
  writes a second subscribe envelope and appends \<open>c\<close> a second time.
\<close>

lemma subscribe_without_handler:
  assumes "ws s \<noteq> None" and "\<not> hasHandlers s c"
  shows "\<exists>s1 s2. subscribe s c None = Resolved s1
           \<and> subscribe s1 c None = Resolved s2
           \<and> handler s1 = handler s
           \<and> handler s2 = handler s
           \<and> written s1 = written s @ [subscribeEnvelope c]
           \<and> subscribedChannels s1 = subscribedChannels s @ [c]
           \<and> written s2 = written s @ [subscribeEnvelope c, subscribeEnvelope c]
           \<and> subscribedChannels s2 = subscribedChannels s @ [c, c]"
proof -
  let ?s1 = "s\<lparr>written := written s @ [subscribeEnvelope c],
                subscribedChannels := subscribedChannels s @ [c]\<rparr>"
  have first: "subscribe s c None = Resolved ?s1"
    using assms by (rule subscribe_null)
  have "\<not> hasHandlers ?s1 c"
    using assms(2) by (simp add: hasHandlers_def lookup_def)
  with assms(1) have second:
    "subscribe ?s1 c None =
       Resolved (?s1\<lparr>written := written ?s1 @ [subscribeEnvelope c],
                     subscribedChannels := subscribedChannels ?s1 @ [c]\<rparr>)"
    by (intro subscribe_null) simp_all
  show ?thesis
    using first second by simp
qed

lemma subscribe_without_handler_example:
  "ws example_client \<noteq> None
   \<and> \<not> hasHandlers example_client ''a''
   \<and> (\<exists>s1 s2. subscribe example_client ''a'' None = Resolved s1
           \<and> subscribe s1 ''a'' None = Resolved s2
           \<and> handler s1 = handler example_client
           \<and> handler s2 = handler example_client
           \<and> written s1 = written example_client @ [subscribeEnvelope ''a'']
           \<and> subscribedChannels s1 = subscribedChannels example_client @ [''a'']
           \<and> written s2 =
               written example_client @ [subscribeEnvelope ''a'', subscribeEnvelope ''a'']
           \<and> subscribedChannels s2 = subscribedChannels example_client @ [''a'', ''a''])"
proof -
  have h1: "ws example_client \<noteq> None"
    by (simp add: example_client_eq)
  have h2: "\<not> hasHandlers example_client ''a''"
    by (simp add: hasHandlers_def lookup_example)
  show ?thesis
    using h1 h2 subscribe_without_handler [OF h1 h2] by blast
qed

text \<open>
  Claim C10, evaluated. The connected example client has nothing registered, so the
  channel \<open>constructor\<close> has no handlers. The test for existing handlers of
  \<open>subscribe\<close> nevertheless reads the \<^verbatim>\<open>length\<close> of the member that the store inherits
  from \<^verbatim>\<open>Object.prototype\<close> under that name, which is \<open>1\<close>, and takes the channel
  for subscribed: \<open>subscribe\<close> with a \<^verbatim>\<open>null\<close> handler returns with the client as it
  was, no subscribe envelope written and the channel not appended to the
  subscribed-channel sequence.
\<close>

theorem subscribe_without_handler_inherited_name:
  "handler example_client ''constructor'' = None
   \<and> hasHandlers example_client ''constructor''
   \<and> subscribe example_client ''constructor'' None = Resolved example_client"
  by (simp add: example_client_eq subscribe_def lazyInit_def hasHandlers_def lookup_def
      objectPrototype_def)

section \<open>Unsubscribing one handler\<close>

text \<open>
  Claim C1, evaluated. On the connected example client, \<open>subscribe a h\<close> followed by
  \<open>unsubscribe a h\<close> (with \<open>h\<close> the handler \<open>1\<close>): the filter of \<open>unregisterHandler\<close>
  keeps the entries identical to \<open>h\<close>, so \<open>h\<close> stays registered, \<open>unsubscribe\<close>
  returns without writing a frame (the only frame written is the subscribe envelope),
  the channel stays in the subscribed-channel sequence, and a message dispatched on
  \<open>a\<close> afterwards still invokes \<open>h\<close>.
\<close>

theorem unsubscribe_keeps_handler:
  "subscribe example_client ''a'' (Some 1) =
     Resolved (example_client\<lparr>handler := [''a'' \<mapsto> [1]],
                 written := [subscribeEnvelope ''a''], subscribedChannels := [''a'']\<rparr>)
   \<and> unsubscribe (example_client\<lparr>handler := [''a'' \<mapsto> [1]],
                 written := [subscribeEnvelope ''a''], subscribedChannels := [''a'']\<rparr>)
        ''a'' (Some 1) =
     Resolved (example_client\<lparr>handler := [''a'' \<mapsto> [1]],
                 written := [subscribeEnvelope ''a''], subscribedChannels := [''a'']\<rparr>)
   \<and> handleMessage (example_client\<lparr>handler := [''a'' \<mapsto> [1]],
                 written := [subscribeEnvelope ''a''], subscribedChannels := [''a'']\<rparr>)
        ''a'' ''{}'' =
     Resolved (example_client\<lparr>handler := [''a'' \<mapsto> [1]],
                 written := [subscribeEnvelope ''a''], subscribedChannels := [''a''],
                 invoked := [(1, ''{}'')]\<rparr>)"
  by (simp add: example_client_eq subscribe_def unsubscribe_def lazyInit_def send_def
      hasHandlers_def lookup_def registerHandler_def unregisterHandler_def
      handleMessage_def subscribeEnvelope_def objectPrototype_def)

section \<open>Facts about connecting\<close>

lemma inj_subscribeEnvelope: "inj subscribeEnvelope"
  by (rule injI) (simp add: subscribeEnvelope_def)

lemma resend_ready:
  "ws s \<noteq> None \<Longrightarrow>
   resend s cs = Resolved (s\<lparr>written := written s @ map subscribeEnvelope cs\<rparr>)"
proof (induction cs arbitrary: s)
  case Nil
  then show ?case by simp
next
  case (Cons c cs)
  then show ?case by (simp add: send_ready subscribeEnvelope_def)
qed

lemma runOnSuccess_eq:
  assumes "connectingPromise s = Some a" and "newSocket a = Some sock" and "\<not> promiseDone a"
  shows "runOnSuccess s =
           s\<lparr>currentRetryDelay := 0, ws := Some sock,
             statusEvents := statusEvents s @ [True], connectingPromise := None,
             written := written s @
               (if isReconnect a then map subscribeEnvelope (subscribedChannels s) else [])\<rparr>"
  using assms
  by (simp add: runOnSuccess_def Let_def triggerConnectionStatusEvent_def
      handleReconnect_def resend_ready)

lemma lazyInit_closed:
  "closed s \<Longrightarrow> ws s = None \<Longrightarrow> connectingPromise s = None \<Longrightarrow> lazyInit s = Rejected s"
  by (simp add: lazyInit_def connect_def)

lemma subscribe_pending:
  assumes "ws s = None" and "connectingPromise s = Some a"
  shows "subscribe s c h = Pending s"
  using assms by (simp add: subscribe_def lazyInit_def)

lemma subscribeAll_pending:
  assumes "ws s = None" and "connectingPromise s = Some a"
  shows "subscribeAll s calls = s"
  using assms by (induction calls arbitrary: s) (auto simp: subscribe_pending)

lemma subscribe_first:
  assumes "ws s = None" and "connectingPromise s = None" and "\<not> closed s"
  shows "subscribe s c h =
           Pending (s\<lparr>connectingPromise :=
                        Some \<lparr>delay = 0, isReconnect = False, newSocket = None,
                              promiseDone = False\<rparr>,
                      timers := timers s @ [0]\<rparr>)"
  using assms by (simp add: subscribe_def lazyInit_def connect_def)

lemma subscribeAll_first:
  assumes "ws s = None" and "connectingPromise s = None" and "\<not> closed s" and "calls \<noteq> []"
  shows "subscribeAll s calls =
           s\<lparr>connectingPromise :=
               Some \<lparr>delay = 0, isReconnect = False, newSocket = None, promiseDone = False\<rparr>,
             timers := timers s @ [0]\<rparr>"
proof -
  obtain c h rest where calls: "calls = (c, h) # rest"
    using assms(4) by (cases calls) auto
  let ?s1 = "s\<lparr>connectingPromise :=
                 Some \<lparr>delay = 0, isReconnect = False, newSocket = None, promiseDone = False\<rparr>,
               timers := timers s @ [0]\<rparr>"
  have "subscribeAll s calls = subscribeAll ?s1 rest"
    using assms by (simp add: calls subscribe_first)
  also have "\<dots> = ?s1"
    using assms(1) by (intro subscribeAll_pending) simp_all
  finally show ?thesis .
qed

lemma waiting_client_eq:
  "waiting_client =
     (new_client example_config 0)
       \<lparr>connectingPromise :=
          Some \<lparr>delay = 0, isReconnect = False, newSocket = None, promiseDone = False\<rparr>,
        timers := [0]\<rparr>"
  by (simp add: waiting_client_def lazyInit_def connect_def new_client_def)

lemma opening_client_eq:
  "opening_client =
     (new_client example_config 0)
       \<lparr>connectingPromise :=
          Some \<lparr>delay = 0, isReconnect = False, newSocket = Some 0, promiseDone = False\<rparr>,
        timers := [0], opened := [0]\<rparr>"
  by (simp add: opening_client_def waiting_client_eq timerFired_def new_client_def
      example_config_def defaultConfig_def)

lemma closed_client_eq: "closed_client = example_client\<lparr>closed := True, closeCalls := 1\<rparr>"
  by (simp add: closed_client_def close_def example_client_eq)

lemma gone_client_eq:
  "gone_client =
     example_client\<lparr>closed := True, closeCalls := 1, ws := None,
                    statusEvents := [True, False]\<rparr>"
  by (simp add: gone_client_def closed_client_eq onclose_def retryConnect_def
      triggerConnectionStatusEvent_def example_client_eq)

lemma dup_client_eq:
  "dup_client =
     example_client\<lparr>written := [subscribeEnvelope ''a'', subscribeEnvelope ''a''],
                    subscribedChannels := [''a'', ''a'']\<rparr>"
  by (simp add: dup_client_def example_client_eq subscribe_def lazyInit_def send_def
      hasHandlers_def lookup_def objectPrototype_def subscribeEnvelope_def)

lemma ab_client_eq:
  "ab_client =
     example_client\<lparr>handler := [''a'' \<mapsto> [1], ''b'' \<mapsto> [2]],
                    written := [subscribeEnvelope ''a'', subscribeEnvelope ''b''],
                    subscribedChannels := [''a'', ''b'']\<rparr>"
  by (simp add: ab_client_def example_client_eq subscribe_def lazyInit_def send_def
      hasHandlers_def lookup_def objectPrototype_def registerHandler_def
      subscribeEnvelope_def)


section \<open>After close\<close>

text \<open>
  Claim C2, as stated, fails: when \<open>close\<close> returns on a connected client, the client
  still holds its transport, and a \<open>send\<close> issued then is not rejected and writes its
  frame to that transport.
\<close>

theorem send_after_close_writes:
  "close example_client = Resolved closed_client
   \<and> closed closed_client
   \<and> send closed_client ''a'' ''{}'' RealtimeMessageTypeChannelMessage =
       Resolved (closed_client\<lparr>written :=
                   [\<lparr>msg_type = ''message'', msg_channel = ''a'', msg_payload = ''{}''\<rparr>]\<rparr>)"
  by (simp add: closed_client_eq close_def example_client_eq send_def lazyInit_def
      RealtimeMessageTypeChannelMessage_def)

text \<open>
  Claim C2, amended. Once the client is closed, holds no transport and has no connect
  attempt in flight, each of \<open>subscribe\<close>, \<open>unsubscribe\<close>, \<open>unsubscribeAll\<close> and
  \<open>send\<close>, and \<open>connect\<close> itself, is rejected and leaves the client state as it was:
  no frame is written, no transport is obtained and no timer is started.
\<close>

theorem operations_rejected_after_close:
  assumes "closed s" and "ws s = None" and "connectingPromise s = None"
  shows "subscribe s c h = Rejected s
         \<and> unsubscribe s c h = Rejected s
         \<and> unsubscribeAll s c = Rejected s
         \<and> send s c p t = Rejected s
         \<and> connect s d r = Rejected s"
  using assms
  by (simp add: subscribe_def unsubscribe_def unsubscribeAll_def send_def lazyInit_closed
      connect_def)

theorem operations_rejected_after_close_witness:
  "closed gone_client \<and> ws gone_client = None \<and> connectingPromise gone_client = None
   \<and> subscribe gone_client ''a'' (Some 1) = Rejected gone_client
   \<and> unsubscribe gone_client ''a'' (Some 1) = Rejected gone_client
   \<and> unsubscribeAll gone_client ''a'' = Rejected gone_client
   \<and> send gone_client ''a'' ''{}'' ''message'' = Rejected gone_client
   \<and> connect gone_client 0 False = Rejected gone_client"
proof -
  have h1: "closed gone_client" by (simp add: gone_client_eq)
  have h2: "ws gone_client = None" by (simp add: gone_client_eq)
  have h3: "connectingPromise gone_client = None" by (simp add: gone_client_eq example_client_eq)
  show ?thesis
    using h1 h2 h3 operations_rejected_after_close [OF h1 h2 h3] by simp
qed

section \<open>Backoff\<close>

lemma example_not_exceeded: "\<not> retryAgeExceeded example_client 1"
  by (simp add: retryAgeExceeded_def example_client_eq)

lemma new_not_exceeded: "n \<le> 43200000 \<Longrightarrow> \<not> retryAgeExceeded (new_client example_config 0) n"
  by (simp add: retryAgeExceeded_def new_client_def example_config_def defaultConfig_def)

text \<open>
  Claim C3. A retry that goes ahead (client not closed, retry age not exceeded) sets
  \<open>currentRetryDelay\<close> to twice its previous value when \<open>exponentialRetryBackoff\<close> is
  set and to the configured \<open>retryDelay\<close> otherwise, and that value is the delay of the
  attempt it starts. Every successful connect, whether the transport opens later or is
  open at once, sets \<open>currentRetryDelay\<close> to \<open>0\<close>. On a new client with exponential
  backoff, a first connect followed by three consecutive failures starts four timers:
  the first connect's \<open>0\<close> and the three retry delays \<open>0, 0, 0\<close>.
\<close>

theorem retry_delay_policy:
  "(\<not> closed s \<and> \<not> retryAgeExceeded s now \<longrightarrow>
      currentRetryDelay (retryConnect s now) =
        (if exponentialRetryBackoff (config s) then currentRetryDelay s * 2
         else retryDelay (config s)))
   \<and> (\<not> closed s \<and> \<not> retryAgeExceeded s now \<and> connectingPromise s = None \<longrightarrow>
      timers (retryConnect s now) = timers s @ [currentRetryDelay (retryConnect s now)])
   \<and> (connectingPromise u = Some a \<and> newSocket a = Some sock \<and> \<not> promiseDone a \<longrightarrow>
      currentRetryDelay (onopen u) = 0)
   \<and> (connectingPromise v = Some b \<and> newSocket b = None \<and> \<not> promiseDone b \<longrightarrow>
      currentRetryDelay (timerFired v True) = 0)
   \<and> (exponentialRetryBackoff cfg
       \<and> \<not> retryAgeExceeded (new_client cfg t0) n1
       \<and> \<not> retryAgeExceeded (new_client cfg t0) n2
       \<and> \<not> retryAgeExceeded (new_client cfg t0) n3 \<longrightarrow>
      timers (failOnce (failOnce (failOnce (state_of (lazyInit (new_client cfg t0))) n1) n2) n3)
        = [0, 0, 0, 0])"
proof (intro conjI impI)
  assume "\<not> closed s \<and> \<not> retryAgeExceeded s now"
  then show "currentRetryDelay (retryConnect s now) =
        (if exponentialRetryBackoff (config s) then currentRetryDelay s * 2
         else retryDelay (config s))"
    by (simp add: retryConnect_def connect_def Let_def split: option.splits)
next
  assume "\<not> closed s \<and> \<not> retryAgeExceeded s now \<and> connectingPromise s = None"
  then show "timers (retryConnect s now) = timers s @ [currentRetryDelay (retryConnect s now)]"
    by (simp add: retryConnect_def connect_def Let_def)
next
  assume "connectingPromise u = Some a \<and> newSocket a = Some sock \<and> \<not> promiseDone a"
  then show "currentRetryDelay (onopen u) = 0"
    by (simp add: onopen_def runOnSuccess_eq)
next
  assume "connectingPromise v = Some b \<and> newSocket b = None \<and> \<not> promiseDone b"
  then show "currentRetryDelay (timerFired v True) = 0"
    by (simp add: timerFired_def Let_def runOnSuccess_eq)
next
  assume "exponentialRetryBackoff cfg
       \<and> \<not> retryAgeExceeded (new_client cfg t0) n1
       \<and> \<not> retryAgeExceeded (new_client cfg t0) n2
       \<and> \<not> retryAgeExceeded (new_client cfg t0) n3"
  then show "timers (failOnce (failOnce (failOnce (state_of (lazyInit (new_client cfg t0))) n1) n2) n3)
        = [0, 0, 0, 0]"
    by (simp add: failOnce_def timerFired_def onerror_def retryConnect_def
        retryAgeExceeded_def connect_def Let_def lazyInit_def new_client_def)
qed


theorem retry_delay_policy_witness:
  "\<not> closed example_client \<and> \<not> retryAgeExceeded example_client 1
   \<and> connectingPromise example_client = None
   \<and> currentRetryDelay (retryConnect example_client 1) = 0
   \<and> timers (retryConnect example_client 1) = [0, 0]
   \<and> connectingPromise opening_client =
        Some \<lparr>delay = 0, isReconnect = False, newSocket = Some 0, promiseDone = False\<rparr>
   \<and> currentRetryDelay (onopen opening_client) = 0
   \<and> connectingPromise waiting_client =
        Some \<lparr>delay = 0, isReconnect = False, newSocket = None, promiseDone = False\<rparr>
   \<and> currentRetryDelay (timerFired waiting_client True) = 0
   \<and> exponentialRetryBackoff example_config
   \<and> \<not> retryAgeExceeded (new_client example_config 0) 10
   \<and> \<not> retryAgeExceeded (new_client example_config 0) 20
   \<and> \<not> retryAgeExceeded (new_client example_config 0) 30
   \<and> timers (failOnce (failOnce (failOnce
        (state_of (lazyInit (new_client example_config 0))) 10) 20) 30) = [0, 0, 0, 0]"
proof -
  have a1: "\<not> closed example_client" by (simp add: example_client_eq)
  have a2: "\<not> retryAgeExceeded example_client 1" by (rule example_not_exceeded)
  have a3: "connectingPromise example_client = None" by (simp add: example_client_eq)
  have a4: "exponentialRetryBackoff (config example_client)
            \<and> currentRetryDelay example_client = 0 \<and> timers example_client = [0]"
    by (simp add: example_client_eq)
  have b1: "connectingPromise opening_client =
        Some \<lparr>delay = 0, isReconnect = False, newSocket = Some 0, promiseDone = False\<rparr>"
    by (simp add: opening_client_eq new_client_def)
  have c1: "connectingPromise waiting_client =
        Some \<lparr>delay = 0, isReconnect = False, newSocket = None, promiseDone = False\<rparr>"
    by (simp add: waiting_client_eq new_client_def)
  have d1: "exponentialRetryBackoff example_config"
    by (simp add: example_config_def defaultConfig_def)
  have d2: "\<not> retryAgeExceeded (new_client example_config 0) 10"
       "\<not> retryAgeExceeded (new_client example_config 0) 20"
       "\<not> retryAgeExceeded (new_client example_config 0) 30"
    by (simp_all add: new_not_exceeded)
  show ?thesis
    using a1 a2 a3 a4 b1 c1 d1 d2
      retry_delay_policy [of example_client 1 opening_client
        "\<lparr>delay = 0, isReconnect = False, newSocket = Some 0, promiseDone = False\<rparr>" 0
        waiting_client
        "\<lparr>delay = 0, isReconnect = False, newSocket = None, promiseDone = False\<rparr>"
        example_config 0 10 20 30]
    by simp
qed

section \<open>Single flight\<close>

text \<open>
  Claim C4. The attempt in flight is the one promise stored in \<open>connectingPromise\<close>.
  While it is stored, \<open>connect\<close> on a client that is not closed and \<open>lazyInit\<close> on a
  client without transport return that promise and change nothing: no timer, no
  transport. On a client without transport and without attempt, any non-empty series of
  \<open>subscribe\<close> calls issued before the connection exists starts one attempt with one
  timer and obtains no transport yet; when the timer fires exactly one transport is
  obtained, and further calls made while that transport is opening obtain none.
\<close>

theorem single_flight_connect:
  "(\<not> closed s \<and> connectingPromise s = Some a \<longrightarrow> connect s d r = Pending s)
   \<and> (ws s = None \<and> connectingPromise s = Some a \<longrightarrow> lazyInit s = Pending s)
   \<and> (ws u = None \<and> connectingPromise u = None \<and> \<not> closed u \<and> calls \<noteq> [] \<longrightarrow>
        subscribeAll u calls =
          u\<lparr>connectingPromise :=
              Some \<lparr>delay = 0, isReconnect = False, newSocket = None, promiseDone = False\<rparr>,
            timers := timers u @ [0]\<rparr>
        \<and> opened (subscribeAll u calls) = opened u
        \<and> length (opened (timerFired (subscribeAll u calls) isOpen)) = length (opened u) + 1
        \<and> length (opened (subscribeAll (timerFired (subscribeAll u calls) False) later))
            = length (opened u) + 1)"
proof (intro conjI impI)
  assume "\<not> closed s \<and> connectingPromise s = Some a"
  then show "connect s d r = Pending s"
    by (simp add: connect_def)
next
  assume "ws s = None \<and> connectingPromise s = Some a"
  then show "lazyInit s = Pending s"
    by (simp add: lazyInit_def)
next
  assume h: "ws u = None \<and> connectingPromise u = None \<and> \<not> closed u \<and> calls \<noteq> []"
  let ?u1 = "u\<lparr>connectingPromise :=
                 Some \<lparr>delay = 0, isReconnect = False, newSocket = None, promiseDone = False\<rparr>,
               timers := timers u @ [0]\<rparr>"
  from h have eq: "subscribeAll u calls = ?u1"
    by (intro subscribeAll_first) simp_all
  show "subscribeAll u calls = ?u1"
    by (rule eq)
  show "opened (subscribeAll u calls) = opened u"
    by (simp add: eq)
  show "length (opened (timerFired (subscribeAll u calls) isOpen)) = length (opened u) + 1"
    by (simp add: eq timerFired_def Let_def runOnSuccess_eq)
  have "ws (timerFired ?u1 False) = None"
    using h by (simp add: timerFired_def Let_def)
  moreover have "\<exists>b. connectingPromise (timerFired ?u1 False) = Some b"
    by (simp add: timerFired_def Let_def)
  ultimately have "subscribeAll (timerFired ?u1 False) later = timerFired ?u1 False"
    by (auto intro: subscribeAll_pending)
  then show "length (opened (subscribeAll (timerFired (subscribeAll u calls) False) later))
            = length (opened u) + 1"
    by (simp add: eq timerFired_def Let_def)
qed

theorem single_flight_connect_witness:
  "\<not> closed waiting_client \<and> ws waiting_client = None
   \<and> connectingPromise waiting_client =
        Some \<lparr>delay = 0, isReconnect = False, newSocket = None, promiseDone = False\<rparr>
   \<and> connect waiting_client 7 True = Pending waiting_client
   \<and> lazyInit waiting_client = Pending waiting_client
   \<and> ws (new_client example_config 0) = None
   \<and> connectingPromise (new_client example_config 0) = None
   \<and> \<not> closed (new_client example_config 0)
   \<and> [(''a'', Some 1), (''b'', Some 2)] \<noteq> []
   \<and> subscribeAll (new_client example_config 0) [(''a'', Some 1), (''b'', Some 2)] =
        waiting_client
   \<and> opened (subscribeAll (new_client example_config 0) [(''a'', Some 1), (''b'', Some 2)]) = []
   \<and> length (opened (timerFired
        (subscribeAll (new_client example_config 0) [(''a'', Some 1), (''b'', Some 2)]) True)) = 1
   \<and> length (opened (subscribeAll (timerFired
        (subscribeAll (new_client example_config 0) [(''a'', Some 1), (''b'', Some 2)]) False)
        [(''c'', Some 3)])) = 1"
proof -
  have a: "\<not> closed waiting_client" "ws waiting_client = None"
    "connectingPromise waiting_client =
        Some \<lparr>delay = 0, isReconnect = False, newSocket = None, promiseDone = False\<rparr>"
    by (simp_all add: waiting_client_eq new_client_def)
  have b: "ws (new_client example_config 0) = None"
    "connectingPromise (new_client example_config 0) = None"
    "\<not> closed (new_client example_config 0)"
    "opened (new_client example_config 0) = []"
    "timers (new_client example_config 0) = []"
    by (simp_all add: new_client_def)
  have c: "[(''a'', Some 1), (''b'', Some (2::nat))] \<noteq> []"
    by simp
  note inst = single_flight_connect [of waiting_client
        "\<lparr>delay = 0, isReconnect = False, newSocket = None, promiseDone = False\<rparr>" 7 True
        "new_client example_config 0" "[(''a'', Some 1), (''b'', Some 2)]" True
        "[(''c'', Some 3)]"]
  show ?thesis
    using a b c inst by (auto simp add: waiting_client_eq simp del: subscribeAll.simps)
qed

section \<open>Replay after a reconnect\<close>

text \<open>
  Claim C5, as stated, fails: the replay writes one frame per entry of the
  subscribed-channel sequence, and an entry can be there twice. On the client that
  subscribed twice to \<open>a\<close> without a handler, the transport closes, the retry connects,
  and the replay writes two subscribe envelopes for the one channel \<open>a\<close>.
\<close>

theorem replay_resends_duplicate:
  "subscribedChannels dup_client = [''a'', ''a'']
   \<and> framesSince dup_client (timerFired (onclose dup_client 1) True) =
       [subscribeEnvelope ''a'', subscribeEnvelope ''a'']"
  by (simp add: dup_client_eq example_client_eq framesSince_def onclose_def
      retryConnect_def retryAgeExceeded_def connect_def timerFired_def Let_def
      triggerConnectionStatusEvent_def runOnSuccess_eq)

text \<open>
  Claim C5, amended. On a connected client that is not closed and whose retry age is
  not exceeded, when the transport closes and the retry it starts connects (the
  transport being open at once, or opening later) with no operation issued in between,
  the frames written are the
  subscribe envelopes of the entries of the subscribed-channel sequence, one per entry
  and in the order of the sequence; the registry and the sequence are unchanged. When
  the sequence has no repeated entry, no frame is written twice.
\<close>

theorem reconnect_replays_sequence:
  assumes "ws s \<noteq> None" and "connectingPromise s = None" and "\<not> closed s"
    and "\<not> retryAgeExceeded s now"
  shows "written (timerFired (onclose s now) True) =
           written s @ map subscribeEnvelope (subscribedChannels s)
         \<and> handler (timerFired (onclose s now) True) = handler s
         \<and> subscribedChannels (timerFired (onclose s now) True) = subscribedChannels s
         \<and> written (onopen (timerFired (onclose s now) False)) =
           written s @ map subscribeEnvelope (subscribedChannels s)
         \<and> handler (onopen (timerFired (onclose s now) False)) = handler s
         \<and> subscribedChannels (onopen (timerFired (onclose s now) False)) =
           subscribedChannels s
         \<and> (distinct (subscribedChannels s) \<longrightarrow>
              distinct (framesSince s (timerFired (onclose s now) True))
              \<and> distinct (framesSince s (onopen (timerFired (onclose s now) False))))"
proof -
  have facts:
    "written (timerFired (onclose s now) True) =
       written s @ map subscribeEnvelope (subscribedChannels s)
     \<and> handler (timerFired (onclose s now) True) = handler s
     \<and> subscribedChannels (timerFired (onclose s now) True) = subscribedChannels s
     \<and> written (onopen (timerFired (onclose s now) False)) =
       written s @ map subscribeEnvelope (subscribedChannels s)
     \<and> handler (onopen (timerFired (onclose s now) False)) = handler s
     \<and> subscribedChannels (onopen (timerFired (onclose s now) False)) = subscribedChannels s"
    using assms
    by (simp add: onclose_def onopen_def retryConnect_def retryAgeExceeded_def connect_def
        timerFired_def Let_def triggerConnectionStatusEvent_def runOnSuccess_eq)
  have "distinct (map subscribeEnvelope (subscribedChannels s))"
    if "distinct (subscribedChannels s)"
    using that by (simp add: distinct_map inj_on_subset [OF inj_subscribeEnvelope])
  then show ?thesis
    using facts by (simp add: framesSince_def)
qed

theorem reconnect_replays_sequence_witness:
  "ws ab_client \<noteq> None \<and> connectingPromise ab_client = None \<and> \<not> closed ab_client
   \<and> \<not> retryAgeExceeded ab_client 1
   \<and> written (timerFired (onclose ab_client 1) True) =
       written ab_client @ [subscribeEnvelope ''a'', subscribeEnvelope ''b'']
   \<and> handler (timerFired (onclose ab_client 1) True) = handler ab_client
   \<and> subscribedChannels (timerFired (onclose ab_client 1) True) = [''a'', ''b'']
   \<and> written (onopen (timerFired (onclose ab_client 1) False)) =
       written ab_client @ [subscribeEnvelope ''a'', subscribeEnvelope ''b'']
   \<and> handler (onopen (timerFired (onclose ab_client 1) False)) = handler ab_client
   \<and> subscribedChannels (onopen (timerFired (onclose ab_client 1) False)) = [''a'', ''b'']
   \<and> distinct (subscribedChannels ab_client)
   \<and> distinct (framesSince ab_client (timerFired (onclose ab_client 1) True))
   \<and> distinct (framesSince ab_client (onopen (timerFired (onclose ab_client 1) False)))"
proof -
  have h1: "ws ab_client \<noteq> None"
    by (simp add: ab_client_eq example_client_eq)
  have h2: "connectingPromise ab_client = None"
    by (simp add: ab_client_eq example_client_eq)
  have h3: "\<not> closed ab_client"
    by (simp add: ab_client_eq example_client_eq)
  have h4: "\<not> retryAgeExceeded ab_client 1"
    by (simp add: retryAgeExceeded_def ab_client_eq example_client_eq)
  have h5: "subscribedChannels ab_client = [''a'', ''b'']"
    by (simp add: ab_client_eq)
  show ?thesis
    using h1 h2 h3 h4 h5 reconnect_replays_sequence [OF h1 h2 h3 h4] by simp
qed

section \<open>Retry age\<close>

text \<open>An age of zero, or none, is no limit: the age is then never exceeded.\<close>

lemma no_retry_age_limit:
  "maxRetryAge (config s) = Some 0 \<or> maxRetryAge (config s) = None \<Longrightarrow>
   \<not> retryAgeExceeded s now"
  by (auto simp: retryAgeExceeded_def)

text \<open>
  Claim C8, as stated, fails for a configured age of zero: the guard of \<open>retryConnect\<close>
  first tests the configured age for truthiness, so with an age of \<open>0\<close> the elapsed
  time is never compared and the retry is scheduled although the elapsed millisecond
  exceeds the age.
\<close>

theorem zero_age_still_retries:
  "maxRetryAge (config zero_age_client) = Some 0
   \<and> 1 - initTime zero_age_client > 0 * 1000
   \<and> retryConnect zero_age_client 1 =
       zero_age_client\<lparr>connectingPromise :=
                          Some \<lparr>delay = 0, isReconnect = True, newSocket = None,
                                promiseDone = False\<rparr>,
                        timers := [0]\<rparr>"
  by (simp add: zero_age_client_def new_client_def example_config_def defaultConfig_def
      retryConnect_def retryAgeExceeded_def connect_def)

text \<open>
  Claim C8, amended. With a configured age other than zero (in seconds), once the time
  since construction exceeds it, \<open>retryConnect\<close> at that or any later clock reading
  returns with the client state unchanged: \<open>connect\<close> is not called, no timer is
  started, nothing is raised.
\<close>

theorem retry_stops_after_max_age:
  assumes "maxRetryAge (config s) = Some age" and "age \<noteq> 0"
    and "now - initTime s > age * 1000" and "now \<le> later"
  shows "retryConnect s later = s"
  using assms by (simp add: retryConnect_def retryAgeExceeded_def)

theorem retry_stops_after_max_age_witness:
  "maxRetryAge (config example_client) = Some 43200 \<and> (43200 :: int) \<noteq> 0
   \<and> 43200001 - initTime example_client > 43200 * 1000
   \<and> (43200001 :: int) \<le> 43200002
   \<and> retryConnect example_client 43200002 = example_client"
proof -
  have h1: "maxRetryAge (config example_client) = Some 43200"
    by (simp add: example_client_eq)
  have h2: "(43200 :: int) \<noteq> 0"
    by simp
  have h3: "43200001 - initTime example_client > 43200 * 1000"
    by (simp add: example_client_eq)
  have h4: "(43200001 :: int) \<le> 43200002"
    by simp
  show ?thesis
    using h1 h2 h3 h4 retry_stops_after_max_age [OF h1 h2 h3 h4] by simp
qed

end
